theory Spec2Isabelle
  imports Complex_Main
begin

section \<open>Threat detector ML service: data model\<close>

text \<open>
  The service of \<^verbatim>\<open>ml-service/app/main.py\<close>. Python's \<^verbatim>\<open>float\<close> values are
  idealised as \<^typ>\<open>real\<close>; the code modelled here never computes with them beyond taking a
  maximum and a difference of clock readings. Python's unbounded \<^verbatim>\<open>int\<close> is \<^typ>\<open>int\<close>,
  and its conversion to a float by numpy is a parameter of the model.
\<close>

text \<open>\<^verbatim>\<open>FEATURE_NAMES\<close>: the 41 feature names of the NSL-KDD dataset, in training order.\<close>

definition FEATURE_NAMES :: "string list" where
  "FEATURE_NAMES =
    [''duration'', ''protocol_type'', ''service'', ''flag'', ''src_bytes'', ''dst_bytes'',
     ''land'', ''wrong_fragment'', ''urgent'', ''hot'', ''num_failed_logins'', ''logged_in'',
     ''num_compromised'', ''root_shell'', ''su_attempted'', ''num_root'', ''num_file_creations'',
     ''num_shells'', ''num_access_files'', ''num_outbound_cmds'', ''is_host_login'',
     ''is_guest_login'', ''count'', ''srv_count'', ''serror_rate'', ''srv_serror_rate'',
     ''rerror_rate'', ''srv_rerror_rate'', ''same_srv_rate'', ''diff_srv_rate'',
     ''srv_diff_host_rate'', ''dst_host_count'', ''dst_host_srv_count'',
     ''dst_host_same_srv_rate'', ''dst_host_diff_srv_rate'', ''dst_host_same_src_port_rate'',
     ''dst_host_srv_diff_host_rate'', ''dst_host_serror_rate'', ''dst_host_srv_serror_rate'',
     ''dst_host_rerror_rate'', ''dst_host_srv_rerror_rate'']"

text \<open>
  \<^verbatim>\<open>class NetworkTrafficFeatures(BaseModel)\<close>: one field per attribute, with the declared
  Python type (\<^verbatim>\<open>float\<close>, \<^verbatim>\<open>str\<close>, \<^verbatim>\<open>int\<close>). A value of the record is an instance that the
  schema has already typed.
\<close>

record NetworkTrafficFeatures =
  duration :: real
  protocol_type :: string
  service :: string
  flag :: string
  src_bytes :: int
  dst_bytes :: int
  land :: int
  wrong_fragment :: int
  urgent :: int
  hot :: int
  num_failed_logins :: int
  logged_in :: int
  num_compromised :: int
  root_shell :: int
  su_attempted :: int
  num_root :: int
  num_file_creations :: int
  num_shells :: int
  num_access_files :: int
  num_outbound_cmds :: int
  is_host_login :: int
  is_guest_login :: int
  count :: int
  srv_count :: int
  serror_rate :: real
  srv_serror_rate :: real
  rerror_rate :: real
  srv_rerror_rate :: real
  same_srv_rate :: real
  diff_srv_rate :: real
  srv_diff_host_rate :: real
  dst_host_count :: int
  dst_host_srv_count :: int
  dst_host_same_srv_rate :: real
  dst_host_diff_srv_rate :: real
  dst_host_same_src_port_rate :: real
  dst_host_srv_diff_host_rate :: real
  dst_host_serror_rate :: real
  dst_host_srv_serror_rate :: real
  dst_host_rerror_rate :: real
  dst_host_srv_rerror_rate :: real

text \<open>
  The \<^verbatim>\<open>Field(..., ge=, le=)\<close> constraints of the class, field by field: the instances
  that the schema accepts. \<^verbatim>\<open>duration\<close> and the three \<^verbatim>\<open>str\<close> fields carry no bound.
\<close>

definition field_constraints :: "NetworkTrafficFeatures \<Rightarrow> bool" where
  "field_constraints f \<longleftrightarrow>
     0 \<le> src_bytes f \<and> 0 \<le> dst_bytes f \<and>
     (0 \<le> land f \<and> land f \<le> 1) \<and>
     0 \<le> wrong_fragment f \<and> 0 \<le> urgent f \<and> 0 \<le> hot f \<and>
     0 \<le> num_failed_logins f \<and>
     (0 \<le> logged_in f \<and> logged_in f \<le> 1) \<and>
     0 \<le> num_compromised f \<and>
     (0 \<le> root_shell f \<and> root_shell f \<le> 1) \<and>
     (0 \<le> su_attempted f \<and> su_attempted f \<le> 1) \<and>
     0 \<le> num_root f \<and> 0 \<le> num_file_creations f \<and> 0 \<le> num_shells f \<and>
     0 \<le> num_access_files f \<and> 0 \<le> num_outbound_cmds f \<and>
     (0 \<le> is_host_login f \<and> is_host_login f \<le> 1) \<and>
     (0 \<le> is_guest_login f \<and> is_guest_login f \<le> 1) \<and>
     0 \<le> count f \<and> 0 \<le> srv_count f \<and>
     (0 \<le> serror_rate f \<and> serror_rate f \<le> 1) \<and>
     (0 \<le> srv_serror_rate f \<and> srv_serror_rate f \<le> 1) \<and>
     (0 \<le> rerror_rate f \<and> rerror_rate f \<le> 1) \<and>
     (0 \<le> srv_rerror_rate f \<and> srv_rerror_rate f \<le> 1) \<and>
     (0 \<le> same_srv_rate f \<and> same_srv_rate f \<le> 1) \<and>
     (0 \<le> diff_srv_rate f \<and> diff_srv_rate f \<le> 1) \<and>
     (0 \<le> srv_diff_host_rate f \<and> srv_diff_host_rate f \<le> 1) \<and>
     0 \<le> dst_host_count f \<and> 0 \<le> dst_host_srv_count f \<and>
     (0 \<le> dst_host_same_srv_rate f \<and> dst_host_same_srv_rate f \<le> 1) \<and>
     (0 \<le> dst_host_diff_srv_rate f \<and> dst_host_diff_srv_rate f \<le> 1) \<and>
     (0 \<le> dst_host_same_src_port_rate f \<and> dst_host_same_src_port_rate f \<le> 1) \<and>
     (0 \<le> dst_host_srv_diff_host_rate f \<and> dst_host_srv_diff_host_rate f \<le> 1) \<and>
     (0 \<le> dst_host_serror_rate f \<and> dst_host_serror_rate f \<le> 1) \<and>
     (0 \<le> dst_host_srv_serror_rate f \<and> dst_host_srv_serror_rate f \<le> 1) \<and>
     (0 \<le> dst_host_rerror_rate f \<and> dst_host_rerror_rate f \<le> 1) \<and>
     (0 \<le> dst_host_srv_rerror_rate f \<and> dst_host_srv_rerror_rate f \<le> 1)"

text \<open>
  A Python value held by a field, and \<^verbatim>\<open>features.dict()\<close>: the field names with their
  values, in declaration order.
\<close>

datatype pyval = PyFloat real | PyInt int | PyStr string

definition dict :: "NetworkTrafficFeatures \<Rightarrow> (string \<times> pyval) list" where
  "dict f =
    [(''duration'', PyFloat (duration f)),
     (''protocol_type'', PyStr (protocol_type f)),
     (''service'', PyStr (service f)),
     (''flag'', PyStr (flag f)),
     (''src_bytes'', PyInt (src_bytes f)),
     (''dst_bytes'', PyInt (dst_bytes f)),
     (''land'', PyInt (land f)),
     (''wrong_fragment'', PyInt (wrong_fragment f)),
     (''urgent'', PyInt (urgent f)),
     (''hot'', PyInt (hot f)),
     (''num_failed_logins'', PyInt (num_failed_logins f)),
     (''logged_in'', PyInt (logged_in f)),
     (''num_compromised'', PyInt (num_compromised f)),
     (''root_shell'', PyInt (root_shell f)),
     (''su_attempted'', PyInt (su_attempted f)),
     (''num_root'', PyInt (num_root f)),
     (''num_file_creations'', PyInt (num_file_creations f)),
     (''num_shells'', PyInt (num_shells f)),
     (''num_access_files'', PyInt (num_access_files f)),
     (''num_outbound_cmds'', PyInt (num_outbound_cmds f)),
     (''is_host_login'', PyInt (is_host_login f)),
     (''is_guest_login'', PyInt (is_guest_login f)),
     (''count'', PyInt (count f)),
     (''srv_count'', PyInt (srv_count f)),
     (''serror_rate'', PyFloat (serror_rate f)),
     (''srv_serror_rate'', PyFloat (srv_serror_rate f)),
     (''rerror_rate'', PyFloat (rerror_rate f)),
     (''srv_rerror_rate'', PyFloat (srv_rerror_rate f)),
     (''same_srv_rate'', PyFloat (same_srv_rate f)),
     (''diff_srv_rate'', PyFloat (diff_srv_rate f)),
     (''srv_diff_host_rate'', PyFloat (srv_diff_host_rate f)),
     (''dst_host_count'', PyInt (dst_host_count f)),
     (''dst_host_srv_count'', PyInt (dst_host_srv_count f)),
     (''dst_host_same_srv_rate'', PyFloat (dst_host_same_srv_rate f)),
     (''dst_host_diff_srv_rate'', PyFloat (dst_host_diff_srv_rate f)),
     (''dst_host_same_src_port_rate'', PyFloat (dst_host_same_src_port_rate f)),
     (''dst_host_srv_diff_host_rate'', PyFloat (dst_host_srv_diff_host_rate f)),
     (''dst_host_serror_rate'', PyFloat (dst_host_serror_rate f)),
     (''dst_host_srv_serror_rate'', PyFloat (dst_host_srv_serror_rate f)),
     (''dst_host_rerror_rate'', PyFloat (dst_host_rerror_rate f)),
     (''dst_host_srv_rerror_rate'', PyFloat (dst_host_srv_rerror_rate f))]"

section \<open>Collaborators: the artifact, the libraries, the clock, the file system\<close>

text \<open>
  A numpy array of dtype \<^verbatim>\<open>float64\<close> with two axes is a list of rows.
\<close>

type_synonym ndarray = "real list list"

text \<open>
  An exception derived from \<^verbatim>\<open>Exception\<close>, carrying \<^verbatim>\<open>str(e)\<close>; every
  \<^verbatim>\<open>except Exception as e\<close> of the source catches it.
\<close>

datatype exn = Exception string

text \<open>
  The loaded artifact is an opaque object with the two methods the service calls.
  \<^verbatim>\<open>model.predict(X)\<close> returns the array of class labels (integers), one per row of
  \<^verbatim>\<open>X\<close>, and \<^verbatim>\<open>model.predict_proba(X)\<close> the array of class probabilities; either may
  raise.
\<close>

record artifact =
  model_predict :: "ndarray \<Rightarrow> exn + int list"
  model_predict_proba :: "ndarray \<Rightarrow> exn + ndarray"

datatype datetime = Datetime real

text \<open>
  What the process reads from outside and the library functions it calls.
  \<^item> \<open>getenv\<close> and \<open>path_exists\<close> are \<^verbatim>\<open>os.getenv\<close> and \<^verbatim>\<open>os.path.exists\<close>.
  \<^item> \<open>joblib_load\<close> is \<^verbatim>\<open>joblib.load\<close>: it raises, or returns the object that the file
    unpickles to. That object may be \<^verbatim>\<open>None\<close> (the value \<open>None\<close> here); any other
    object is taken to be an artifact.
  \<^item> \<open>float64\<close> is the entry that \<^verbatim>\<open>np.array\<close> makes of a Python \<^verbatim>\<open>int\<close> in an array of
    dtype \<^verbatim>\<open>float64\<close>. It is a parameter: numpy rounds an integer that has no exact
    \<^verbatim>\<open>float64\<close>, and nothing here fixes how. The conversion is taken to depend on the
    integer alone and to return an entry for every integer.
  \<^item> The \<open>k\<close>-th reading of the clock since the process started is \<open>time_at k\<close> through
    \<^verbatim>\<open>time.time()\<close> and \<open>utcnow_at k\<close> through \<^verbatim>\<open>datetime.utcnow()\<close>; \<open>timestamp_of\<close> is
    \<^verbatim>\<open>datetime.timestamp()\<close>.
\<close>

record world =
  getenv :: "string \<Rightarrow> string option"
  path_exists :: "string \<Rightarrow> bool"
  joblib_load :: "string \<Rightarrow> exn + artifact option"
  float64 :: "int \<Rightarrow> real"
  time_at :: "nat \<Rightarrow> real"
  utcnow_at :: "nat \<Rightarrow> datetime"
  timestamp_of :: "datetime \<Rightarrow> real"

section \<open>Encoding\<close>

text \<open>
  \<^verbatim>\<open>np.array(numeric_features)\<close> turns the Python numbers of the list into \<^verbatim>\<open>float64\<close>
  entries: a \<^verbatim>\<open>float\<close> is one already, an \<^verbatim>\<open>int\<close> is converted by \<open>float64\<close>, and a
  string is no such entry. \<^verbatim>\<open>.reshape(1, -1)\<close> makes the one row of the result from them.
\<close>

fun np_float :: "world \<Rightarrow> pyval \<Rightarrow> real option" where
  "np_float w (PyFloat x) = Some x"
| "np_float w (PyInt i) = Some (float64 w i)"
| "np_float w (PyStr s) = None"

definition reshape_1 :: "real list \<Rightarrow> ndarray" where
  "reshape_1 xs = [xs]"

text \<open>
  \<^verbatim>\<open>preprocess_features\<close>: the list \<^verbatim>\<open>numeric_features\<close> of the source, entry by entry, as
  \<^verbatim>\<open>np.array\<close> holds it (an \<^verbatim>\<open>int\<close> field enters the array through \<open>float64\<close>), then the
  reshape. \<^verbatim>\<open>feature_dict\<close> is computed by the source and not used.
\<close>

definition numeric_features :: "world \<Rightarrow> NetworkTrafficFeatures \<Rightarrow> real list" where
  "numeric_features w features =
    [duration features, float64 w (src_bytes features), float64 w (dst_bytes features),
     float64 w (land features), float64 w (wrong_fragment features),
     float64 w (urgent features), float64 w (hot features),
     float64 w (num_failed_logins features), float64 w (logged_in features),
     float64 w (num_compromised features),
     float64 w (root_shell features), float64 w (su_attempted features),
     float64 w (num_root features),
     float64 w (num_file_creations features), float64 w (num_shells features),
     float64 w (num_access_files features),
     float64 w (num_outbound_cmds features), float64 w (is_host_login features),
     float64 w (is_guest_login features),
     float64 w (count features), float64 w (srv_count features), serror_rate features,
     srv_serror_rate features, rerror_rate features, srv_rerror_rate features,
     same_srv_rate features, diff_srv_rate features, srv_diff_host_rate features,
     float64 w (dst_host_count features), float64 w (dst_host_srv_count features),
     dst_host_same_srv_rate features, dst_host_diff_srv_rate features,
     dst_host_same_src_port_rate features, dst_host_srv_diff_host_rate features,
     dst_host_serror_rate features, dst_host_srv_serror_rate features,
     dst_host_rerror_rate features, dst_host_srv_rerror_rate features]"

definition preprocess_features :: "world \<Rightarrow> NetworkTrafficFeatures \<Rightarrow> ndarray" where
  "preprocess_features w features = reshape_1 (numeric_features w features)"

section \<open>Response models\<close>

text \<open>
  An endpoint returns its response body or raises an \<^verbatim>\<open>HTTPException\<close>; the framework
  answers 200 with the body, or with the status code of the exception.
\<close>

datatype HTTPException = HTTPException (status_code: nat) (detail: string)

definition response_status :: "HTTPException + 'a \<Rightarrow> nat" where
  "response_status r = (case r of Inl h \<Rightarrow> status_code h | Inr body \<Rightarrow> 200)"

record PredictionResponse =
  prediction :: string
  confidence :: real
  threat_type :: "string option"
  model_version :: string
  timestamp :: datetime

record BatchPredictionRequest =
  features :: "NetworkTrafficFeatures list"

record BatchPredictionResponse =
  predictions :: "PredictionResponse list"
  total_processed :: int
  processing_time_ms :: real

record HealthResponse =
  status :: string
  model_loaded :: bool
  model_version :: "string option"
  model_loaded_at :: "datetime option"
  uptime_seconds :: real

section \<open>The global state and the model lifecycle\<close>

text \<open>
  The module's globals \<^verbatim>\<open>model\<close>, \<^verbatim>\<open>model_version\<close> and \<^verbatim>\<open>model_loaded_at\<close>, with the
  number of clock readings made so far.
\<close>

record state =
  model :: "artifact option"
  model_version :: string
  model_loaded_at :: "datetime option"
  clock_reads :: nat

definition initial_state :: state where
  "initial_state =
     \<lparr>model = None, model_version = ''v1.0'', model_loaded_at = None, clock_reads = 0\<rparr>"

definition time_time :: "world \<Rightarrow> state \<Rightarrow> real \<times> state" where
  "time_time w s = (time_at w (clock_reads s), s\<lparr>clock_reads := Suc (clock_reads s)\<rparr>)"

definition datetime_utcnow :: "world \<Rightarrow> state \<Rightarrow> datetime \<times> state" where
  "datetime_utcnow w s = (utcnow_at w (clock_reads s), s\<lparr>clock_reads := Suc (clock_reads s)\<rparr>)"

text \<open>\<^verbatim>\<open>model is not None\<close>.\<close>

definition is_not_None :: "'a option \<Rightarrow> bool" where
  "is_not_None x = (case x of None \<Rightarrow> False | Some _ \<Rightarrow> True)"



section \<open>Endpoints\<close>

text \<open>
  \<^verbatim>\<open>GET /health\<close>. The left operand of the subtraction reads the clock first; the right one
  reads it again only when \<^verbatim>\<open>model_loaded_at\<close> is \<^verbatim>\<open>None\<close>. The function has no
  \<^verbatim>\<open>raise\<close>, so every path returns the response body.
\<close>

definition health_check ::
  "world \<Rightarrow> state \<Rightarrow> (HTTPException + HealthResponse) \<times> state"
where
  "health_check w s =
    (let (t, s1) = time_time w s;
         (t0, s2) = (case model_loaded_at s1 of
                       Some d \<Rightarrow> (timestamp_of w d, s1)
                     | None \<Rightarrow> time_time w s1);
         uptime = t - t0
     in (Inr \<lparr>status = (if is_not_None (model s2) then ''healthy'' else ''degraded''),
              model_loaded = is_not_None (model s2),
              HealthResponse.model_version =
                (if is_not_None (model s2) then Some (model_version s2) else None),
              HealthResponse.model_loaded_at = model_loaded_at s2,
              uptime_seconds = uptime\<rparr>, s2))"

text \<open>\<^verbatim>\<open>a[0]\<close> on the label array, and \<^verbatim>\<open>np.max\<close> over all entries of an array.\<close>

definition getitem0 :: "int list \<Rightarrow> exn + int" where
  "getitem0 a =
    (case a of
       [] \<Rightarrow> Inl (Exception ''index 0 is out of bounds for axis 0 with size 0'')
     | x # _ \<Rightarrow> Inr x)"

definition np_max :: "ndarray \<Rightarrow> exn + real" where
  "np_max a =
    (case concat a of
       [] \<Rightarrow> Inl (Exception
               ''zero-size array to reduction operation maximum which has no identity'')
     | x # xs \<Rightarrow> Inr (fold max xs x))"

text \<open>
  \<^verbatim>\<open>POST /predict\<close>. \<open>predict_try\<close> is the body of the \<^verbatim>\<open>try\<close> block: an exception
  leaves it at the statement that raised. Building the \<^verbatim>\<open>PredictionResponse\<close> reads the
  clock for the default of \<^verbatim>\<open>timestamp\<close>.
\<close>

definition predict_try ::
  "world \<Rightarrow> state \<Rightarrow> artifact \<Rightarrow> NetworkTrafficFeatures \<Rightarrow> (exn + PredictionResponse) \<times> state"
where
  "predict_try w s m feats =
    (let feature_array = preprocess_features w feats in
     case model_predict m feature_array of Inl e \<Rightarrow> (Inl e, s) | Inr labels \<Rightarrow>
    (case getitem0 labels of Inl e \<Rightarrow> (Inl e, s) | Inr pred \<Rightarrow>
    (case model_predict_proba m feature_array of Inl e \<Rightarrow> (Inl e, s) | Inr proba \<Rightarrow>
    (case np_max proba of Inl e \<Rightarrow> (Inl e, s) | Inr conf \<Rightarrow>
       (let prediction_label = (if pred = 1 then ''malicious'' else ''normal'');
            threat = (if pred = 1 then Some ''unknown'' else None);
            (now, s') = datetime_utcnow w s
        in (Inr \<lparr>prediction = prediction_label, confidence = conf, threat_type = threat,
                 PredictionResponse.model_version = model_version s, timestamp = now\<rparr>, s'))))))"

definition predict ::
  "world \<Rightarrow> state \<Rightarrow> NetworkTrafficFeatures \<Rightarrow> (HTTPException + PredictionResponse) \<times> state"
where
  "predict w s feats =
    (case model s of
       None \<Rightarrow>
         (Inl (HTTPException 503 ''Model not loaded. Please train and load the model first.''), s)
     | Some m \<Rightarrow>
         (case predict_try w s m feats of
            (Inr response, s') \<Rightarrow> (Inr response, s')
          | (Inl (Exception e), s') \<Rightarrow>
              (Inl (HTTPException 500 (''Prediction failed: '' @ e)), s')))"

text \<open>
  \<^verbatim>\<open>POST /predict/batch\<close>. \<open>batch_for\<close> is the \<^verbatim>\<open>for\<close> loop of the \<^verbatim>\<open>try\<close> block over
  the remaining items, with the list \<^verbatim>\<open>predictions\<close> built so far; an exception leaves the
  loop, and the list with it.
\<close>

fun batch_for ::
  "world \<Rightarrow> artifact \<Rightarrow> NetworkTrafficFeatures list \<Rightarrow> PredictionResponse list \<Rightarrow> state
     \<Rightarrow> (exn + PredictionResponse list) \<times> state"
where
  "batch_for w m [] preds s = (Inr preds, s)"
| "batch_for w m (feats # rest) preds s =
    (let feature_array = preprocess_features w feats in
     case model_predict m feature_array of Inl e \<Rightarrow> (Inl e, s) | Inr labels \<Rightarrow>
    (case getitem0 labels of Inl e \<Rightarrow> (Inl e, s) | Inr pred \<Rightarrow>
    (case model_predict_proba m feature_array of Inl e \<Rightarrow> (Inl e, s) | Inr proba \<Rightarrow>
    (case np_max proba of Inl e \<Rightarrow> (Inl e, s) | Inr conf \<Rightarrow>
       (let prediction_label = (if pred = 1 then ''malicious'' else ''normal'');
            threat = (if pred = 1 then Some ''unknown'' else None);
            (now, s') = datetime_utcnow w s
        in batch_for w m rest
             (preds @ [\<lparr>prediction = prediction_label, confidence = conf, threat_type = threat,
                        PredictionResponse.model_version = model_version s, timestamp = now\<rparr>])
             s')))))"

definition predict_batch ::
  "world \<Rightarrow> state \<Rightarrow> BatchPredictionRequest
     \<Rightarrow> (HTTPException + BatchPredictionResponse) \<times> state"
where
  "predict_batch w s request =
    (case model s of
       None \<Rightarrow>
         (Inl (HTTPException 503 ''Model not loaded. Please train and load the model first.''), s)
     | Some m \<Rightarrow>
         (let (start_time, s1) = time_time w s in
          case batch_for w m (features request) [] s1 of
            (Inr preds, s2) \<Rightarrow>
              (let (end_time, s3) = time_time w s2;
                   processing_time = (end_time - start_time) * 1000
               in (Inr \<lparr>predictions = preds, total_processed = int (length preds),
                        processing_time_ms = processing_time\<rparr>, s3))
          | (Inl (Exception e), s2) \<Rightarrow>
              (Inl (HTTPException 500 (''Batch prediction failed: '' @ e)), s2)))"

section \<open>The per-item computation shared by both endpoints\<close>

text \<open>
  The source repeats the same statements in \<open>predict\<close> and in the loop of
  \<open>predict_batch\<close>. For the proofs they are named once: \<open>item_outcome\<close> is the class label
  and the confidence of one record, or the first exception raised on the way;
  \<open>item_response\<close> is the response built from them in state \<open>s\<close>; \<open>tick\<close> is the state
  after one more clock reading.
\<close>

definition item_outcome ::
  "world \<Rightarrow> artifact \<Rightarrow> NetworkTrafficFeatures \<Rightarrow> exn + int \<times> real"
where
  "item_outcome w m feats =
    (let feature_array = preprocess_features w feats in
     case model_predict m feature_array of Inl e \<Rightarrow> Inl e | Inr labels \<Rightarrow>
    (case getitem0 labels of Inl e \<Rightarrow> Inl e | Inr pred \<Rightarrow>
    (case model_predict_proba m feature_array of Inl e \<Rightarrow> Inl e | Inr proba \<Rightarrow>
    (case np_max proba of Inl e \<Rightarrow> Inl e | Inr conf \<Rightarrow> Inr (pred, conf)))))"

definition item_response :: "world \<Rightarrow> state \<Rightarrow> int \<times> real \<Rightarrow> PredictionResponse" where
  "item_response w s cp =
     \<lparr>prediction = (if fst cp = 1 then ''malicious'' else ''normal''),
      confidence = snd cp,
      threat_type = (if fst cp = 1 then Some ''unknown'' else None),
      PredictionResponse.model_version = model_version s,
      timestamp = utcnow_at w (clock_reads s)\<rparr>"

definition tick :: "state \<Rightarrow> state" where
  "tick s = s\<lparr>clock_reads := Suc (clock_reads s)\<rparr>"

section \<open>Sample inputs\<close>

text \<open>A record of an ordinary HTTP connection, within every bound of the schema.\<close>

definition http_features :: NetworkTrafficFeatures where
  "http_features =
    \<lparr>duration = 2, protocol_type = ''tcp'', service = ''http'', flag = ''SF'',
     src_bytes = 181, dst_bytes = 5450, land = 0, wrong_fragment = 0, urgent = 0, hot = 0,
     num_failed_logins = 0, logged_in = 1, num_compromised = 0, root_shell = 0,
     su_attempted = 0, num_root = 0, num_file_creations = 0, num_shells = 0,
     num_access_files = 0, num_outbound_cmds = 0, is_host_login = 0, is_guest_login = 0,
     count = 8, srv_count = 8, serror_rate = 0, srv_serror_rate = 0, rerror_rate = 0,
     srv_rerror_rate = 0, same_srv_rate = 1, diff_srv_rate = 0, srv_diff_host_rate = 0,
     dst_host_count = 9, dst_host_srv_count = 9, dst_host_same_srv_rate = 1,
     dst_host_diff_srv_rate = 0, dst_host_same_src_port_rate = 1 / 9,
     dst_host_srv_diff_host_rate = 0, dst_host_serror_rate = 0,
     dst_host_srv_serror_rate = 0, dst_host_rerror_rate = 0,
     dst_host_srv_rerror_rate = 0\<rparr>"

text \<open>The same connection with a duration beyond the range of a 32-bit float.\<close>

definition huge_features :: NetworkTrafficFeatures where
  "huge_features = http_features\<lparr>duration := 10 ^ 40\<rparr>"

text \<open>The same connection with a byte count that no \<^verbatim>\<open>float64\<close> represents exactly.\<close>

definition odd_features :: NetworkTrafficFeatures where
  "odd_features = http_features\<lparr>src_bytes := 2 ^ 53 + 1\<rparr>"

text \<open>The same connection with a large upload.\<close>

definition upload_features :: NetworkTrafficFeatures where
  "upload_features = http_features\<lparr>src_bytes := 50000\<rparr>"

text \<open>
  Artifacts: one that answers class \<open>c\<close> with probability \<open>p\<close> for every row, and one that,
  like a forest working in 32-bit floats, raises on an entry that is too large, and otherwise
  answers class 1 for the rows whose second column (\<open>src_bytes\<close>) exceeds 10000.
\<close>

definition constant_artifact :: "int \<Rightarrow> real \<Rightarrow> artifact" where
  "constant_artifact c p =
     \<lparr>model_predict = (\<lambda>X. Inr (map (\<lambda>row. c) X)),
      model_predict_proba = (\<lambda>X. Inr (map (\<lambda>row. [1 - p, p]) X))\<rparr>"

definition float32_artifact :: artifact where
  "float32_artifact =
     \<lparr>model_predict = (\<lambda>X.
        if list_ex (\<lambda>x. 10 ^ 39 < x) (concat X)
        then Inl (Exception ''Input X contains infinity or a value too large for float32.'')
        else Inr (map (\<lambda>row. case row of
                                d # b # rest \<Rightarrow> (if 10000 < b then 1 else 0)
                              | _ \<Rightarrow> 0) X)),
      model_predict_proba = (\<lambda>X. Inr (map (\<lambda>row. [1 / 4, 3 / 4]) X))\<rparr>"

text \<open>
  A conversion for the sample worlds: the integer rounded to 53 significant bits, to the
  nearest and to the even one of two equally near, as IEEE 754 does. \<open>bit_length\<close> is
  Python's \<^verbatim>\<open>int.bit_length\<close>.
\<close>

fun bit_length :: "nat \<Rightarrow> nat" where
  "bit_length n = (if n = 0 then 0 else Suc (bit_length (n div 2)))"

declare bit_length.simps [simp del]

definition float64_of_int :: "int \<Rightarrow> real" where
  "float64_of_int i =
    (let n = nat \<bar>i\<bar>;
         k = bit_length n - 53;
         q = n div 2 ^ k;
         r = n mod 2 ^ k;
         q' = (if 2 ^ k < 2 * r \<or> (2 * r = 2 ^ k \<and> odd q) then Suc q else q)
     in of_int (sgn i) * real (q' * 2 ^ k))"

text \<open>
  Worlds: one where the default path holds the artifact \<open>m\<close>, one with no file at all, one
  whose file does not deserialise, and one whose file unpickles to \<^verbatim>\<open>None\<close>. The clock
  shows the number of the reading.
\<close>

definition world_with :: "artifact \<Rightarrow> world" where
  "world_with m =
     \<lparr>getenv = (\<lambda>name. None),
      path_exists = (\<lambda>p. p = ''/app/model/rf_model.pkl''),
      joblib_load = (\<lambda>p. Inr (Some m)),
      float64 = float64_of_int,
      time_at = (\<lambda>k. real k),
      utcnow_at = (\<lambda>k. Datetime (real k)),
      timestamp_of = (\<lambda>d. case d of Datetime t \<Rightarrow> t)\<rparr>"

definition world_without_file :: world where
  "world_without_file = (world_with (constant_artifact 0 1))\<lparr>path_exists := (\<lambda>p. False)\<rparr>"



text \<open>The state once the artifact \<open>m\<close> has been loaded at the first clock reading.\<close>

definition loaded_state :: "artifact \<Rightarrow> state" where
  "loaded_state m =
     \<lparr>model = Some m, model_version = ''v1.0'', model_loaded_at = Some (Datetime 0),
      clock_reads = 1\<rparr>"

section \<open>The sample inputs evaluated\<close>

lemma bit_length_le: "n < 2 ^ k \<Longrightarrow> bit_length n \<le> k"
proof (induction k arbitrary: n)
  case 0
  then show ?case by (simp add: bit_length.simps)
next
  case (Suc k)
  show ?case
  proof (cases "n = 0")
    case True
    then show ?thesis by (simp add: bit_length.simps)
  next
    case False
    from Suc.prems have "n div 2 < 2 ^ k" by simp
    from Suc.IH [OF this] False show ?thesis
      by (subst bit_length.simps) simp
  qed
qed

lemma float64_of_int_exact: "\<bar>i\<bar> < 2 ^ 53 \<Longrightarrow> float64_of_int i = of_int i"
proof -
  assume small: "\<bar>i\<bar> < 2 ^ 53"
  then have "nat \<bar>i\<bar> < 2 ^ 53" by (simp add: nat_less_iff)
  then have "bit_length (nat \<bar>i\<bar>) - 53 = 0"
    using bit_length_le [of "nat \<bar>i\<bar>" 53] by simp
  then have "float64_of_int i = of_int (sgn i) * real (nat \<bar>i\<bar>)"
    by (simp add: float64_of_int_def)
  also have "\<dots> = of_int (sgn i * \<bar>i\<bar>)" by simp
  also have "sgn i * \<bar>i\<bar> = i" by (simp add: mult_sgn_abs)
  finally show ?thesis .
qed

lemma bit_length_odd_count: "bit_length 9007199254740993 = 54"
  by (simp add: bit_length.simps)

lemma float64_of_int_rounds: "float64_of_int 9007199254740993 = 9007199254740992"
  by (simp add: float64_of_int_def bit_length_odd_count)

lemma float64_world_with: "float64 (world_with a) = float64_of_int"
  by (simp add: world_with_def)

lemma item_outcome_constant_artifact:
  "item_outcome w (constant_artifact c p) f = Inr (c, max p (1 - p))"
  by (simp add: item_outcome_def constant_artifact_def preprocess_features_def reshape_1_def
        getitem0_def np_max_def)

lemma model_loaded_state: "model (loaded_state m) = Some m"
  by (simp add: loaded_state_def)

lemma preprocess_http_features:
  "preprocess_features (world_with a) http_features =
     [[2, 181, 5450, 0, 0, 0, 0, 0, 1, 0, 0, 0, 0, 0, 0, 0, 0, 0, 0, 8, 8, 0, 0, 0, 0, 1, 0, 0,
       9, 9, 1, 0, 1 / 9, 0, 0, 0, 0, 0]]"
  by (simp add: preprocess_features_def reshape_1_def numeric_features_def http_features_def
        float64_world_with float64_of_int_exact)

lemma preprocess_upload_features:
  "preprocess_features (world_with a) upload_features =
     [[2, 50000, 5450, 0, 0, 0, 0, 0, 1, 0, 0, 0, 0, 0, 0, 0, 0, 0, 0, 8, 8, 0, 0, 0, 0, 1, 0, 0,
       9, 9, 1, 0, 1 / 9, 0, 0, 0, 0, 0]]"
  by (simp add: preprocess_features_def reshape_1_def numeric_features_def http_features_def
        upload_features_def float64_world_with float64_of_int_exact)

lemma preprocess_huge_features:
  "preprocess_features (world_with a) huge_features =
     [[10 ^ 40, 181, 5450, 0, 0, 0, 0, 0, 1, 0, 0, 0, 0, 0, 0, 0, 0, 0, 0, 8, 8, 0, 0, 0, 0, 1, 0, 0,
       9, 9, 1, 0, 1 / 9, 0, 0, 0, 0, 0]]"
  by (simp add: preprocess_features_def reshape_1_def numeric_features_def http_features_def
        huge_features_def float64_world_with float64_of_int_exact)

lemma preprocess_odd_features:
  "preprocess_features (world_with a) odd_features =
     [[2, 9007199254740992, 5450, 0, 0, 0, 0, 0, 1, 0, 0, 0, 0, 0, 0, 0, 0, 0, 0, 8, 8, 0, 0, 0, 0, 1, 0, 0,
       9, 9, 1, 0, 1 / 9, 0, 0, 0, 0, 0]]"
  by (simp add: preprocess_features_def reshape_1_def numeric_features_def http_features_def
        odd_features_def float64_world_with float64_of_int_exact float64_of_int_rounds)

lemma field_constraints_http_features: "field_constraints http_features"
  by (simp add: field_constraints_def http_features_def)

lemma field_constraints_huge_features: "field_constraints huge_features"
  by (simp add: field_constraints_def http_features_def huge_features_def)

lemma field_constraints_upload_features: "field_constraints upload_features"
  by (simp add: field_constraints_def http_features_def upload_features_def)

lemma field_constraints_odd_features: "field_constraints odd_features"
  by (simp add: field_constraints_def http_features_def odd_features_def)

lemma float32_predict_http:
  "model_predict float32_artifact (preprocess_features (world_with a) http_features) = Inr [0]"
  unfolding preprocess_http_features by (simp add: float32_artifact_def)

lemma float32_predict_upload:
  "model_predict float32_artifact (preprocess_features (world_with a) upload_features) = Inr [1]"
  unfolding preprocess_upload_features by (simp add: float32_artifact_def)

lemma float32_predict_huge:
  "model_predict float32_artifact (preprocess_features (world_with a) huge_features) =
     Inl (Exception ''Input X contains infinity or a value too large for float32.'')"
  unfolding preprocess_huge_features by (simp add: float32_artifact_def)

lemma float32_outcome_http:
  "item_outcome (world_with a) float32_artifact http_features = Inr (0, 3 / 4)"
  using float32_predict_http [of a]
  by (simp add: item_outcome_def getitem0_def np_max_def)
     (simp add: float32_artifact_def preprocess_http_features np_max_def)

lemma float32_outcome_upload:
  "item_outcome (world_with a) float32_artifact upload_features = Inr (1, 3 / 4)"
  using float32_predict_upload [of a]
  by (simp add: item_outcome_def getitem0_def np_max_def)
     (simp add: float32_artifact_def preprocess_upload_features np_max_def)

section \<open>The encoder\<close>

lemma numeric_names:
  "filter (\<lambda>n. n \<notin> {''protocol_type'', ''service'', ''flag''}) FEATURE_NAMES =
    [''duration'', ''src_bytes'', ''dst_bytes'',
     ''land'', ''wrong_fragment'', ''urgent'', ''hot'', ''num_failed_logins'', ''logged_in'',
     ''num_compromised'', ''root_shell'', ''su_attempted'', ''num_root'', ''num_file_creations'',
     ''num_shells'', ''num_access_files'', ''num_outbound_cmds'', ''is_host_login'',
     ''is_guest_login'', ''count'', ''srv_count'', ''serror_rate'', ''srv_serror_rate'',
     ''rerror_rate'', ''srv_rerror_rate'', ''same_srv_rate'', ''diff_srv_rate'',
     ''srv_diff_host_rate'', ''dst_host_count'', ''dst_host_srv_count'',
     ''dst_host_same_srv_rate'', ''dst_host_diff_srv_rate'', ''dst_host_same_src_port_rate'',
     ''dst_host_srv_diff_host_rate'', ''dst_host_serror_rate'', ''dst_host_srv_serror_rate'',
     ''dst_host_rerror_rate'', ''dst_host_srv_rerror_rate'']"
  by (simp add: FEATURE_NAMES_def)

lemma dict_keys: "map fst (dict f) = FEATURE_NAMES"
  by (simp add: dict_def FEATURE_NAMES_def)

lemma numeric_features_by_name:
  "map Some (numeric_features w f) =
     map (\<lambda>n. Option.bind (map_of (dict f) n) (np_float w))
       (filter (\<lambda>n. n \<notin> {''protocol_type'', ''service'', ''flag''}) FEATURE_NAMES)"
  unfolding numeric_names by (simp add: numeric_features_def dict_def)

lemma length_numeric_features: "length (numeric_features w f) = 38"
  by (simp add: numeric_features_def)

lemma numeric_features_categorical:
  "numeric_features w (f\<lparr>protocol_type := p, service := sv, flag := fl\<rparr>) = numeric_features w f"
  by (simp add: numeric_features_def)

text \<open>
  C1. For every record within the schema's bounds, \<open>preprocess_features\<close> returns a single
  row of exactly 38 numbers. The row follows one fixed order: it lists, in the order of
  \<open>FEATURE_NAMES\<close> with \<open>protocol_type\<close>, \<open>service\<close> and \<open>flag\<close> left out, the field of
  that name as an entry of the array (a \<open>float\<close> as it is, an \<open>int\<close> as numpy converts it,
  whatever that conversion is; no string-valued field occurs), and it does not change when
  the three categorical fields are replaced by any other strings.
\<close>

theorem preprocess_features_38_canonical:
  assumes "field_constraints f"
  shows "\<exists>row. preprocess_features w f = [row] \<and> length row = 38 \<and>
           map Some row =
             map (\<lambda>n. Option.bind (map_of (dict f) n) (np_float w))
               (filter (\<lambda>n. n \<notin> {''protocol_type'', ''service'', ''flag''}) FEATURE_NAMES) \<and>
           (\<forall>p sv fl.
              preprocess_features w (f\<lparr>protocol_type := p, service := sv, flag := fl\<rparr>) = [row])"
proof -
  have "preprocess_features w f = [numeric_features w f]"
    by (simp add: preprocess_features_def reshape_1_def)
  moreover have "\<forall>p sv fl.
      preprocess_features w (f\<lparr>protocol_type := p, service := sv, flag := fl\<rparr>)
        = [numeric_features w f]"
    by (simp add: preprocess_features_def reshape_1_def numeric_features_categorical)
  ultimately show ?thesis
    using length_numeric_features [of w f] numeric_features_by_name [of w f] by blast
qed

theorem preprocess_features_38_canonical_witness:
  "field_constraints odd_features \<and>
   (\<exists>row. preprocess_features (world_with float32_artifact) odd_features = [row] \<and>
      length row = 38 \<and> row ! 0 = 2 \<and> row ! 1 = 2 ^ 53 \<and> row ! 2 = 5450 \<and>
      (\<forall>p sv fl.
         preprocess_features (world_with float32_artifact)
             (odd_features\<lparr>protocol_type := p, service := sv, flag := fl\<rparr>)
           = [row]))"
proof -
  let ?W = "world_with float32_artifact"
  from preprocess_features_38_canonical [OF field_constraints_odd_features, of ?W]
  obtain row where row: "preprocess_features ?W odd_features = [row] \<and> length row = 38 \<and>
      map Some row =
        map (\<lambda>n. Option.bind (map_of (dict odd_features) n) (np_float ?W))
          (filter (\<lambda>n. n \<notin> {''protocol_type'', ''service'', ''flag''}) FEATURE_NAMES) \<and>
      (\<forall>p sv fl.
         preprocess_features ?W (odd_features\<lparr>protocol_type := p, service := sv, flag := fl\<rparr>)
           = [row])" ..
  note first = row [THEN conjunct1]
  note len = row [THEN conjunct2, THEN conjunct1]
  note indep = row [THEN conjunct2, THEN conjunct2, THEN conjunct2]
  from first have "row = hd (preprocess_features ?W odd_features)" by simp
  then have e0: "row ! 0 = 2" and e1: "row ! 1 = 2 ^ 53" and e2: "row ! 2 = 5450"
    unfolding preprocess_odd_features by simp_all
  show ?thesis
    by (intro conjI exI [of _ row] field_constraints_odd_features first len e0 e1 e2 indep)
qed

section \<open>The endpoints in terms of the per-item computation\<close>

lemma predict_try_outcome:
  "predict_try w s m f =
     (case item_outcome w m f of
        Inl e \<Rightarrow> (Inl e, s)
      | Inr cp \<Rightarrow> (Inr (item_response w s cp), tick s))"
  by (simp add: predict_try_def item_outcome_def item_response_def tick_def datetime_utcnow_def
        Let_def split: sum.splits)

lemma predict_outcome:
  "model s = Some m \<Longrightarrow>
   predict w s f =
     (case item_outcome w m f of
        Inl e \<Rightarrow> (Inl (HTTPException 500 (''Prediction failed: '' @ (case e of Exception msg \<Rightarrow> msg))), s)
      | Inr cp \<Rightarrow> (Inr (item_response w s cp), tick s))"
  by (simp add: predict_def predict_try_outcome split: sum.splits exn.splits)

lemma batch_for_step:
  "batch_for w m (f # fs) preds s =
     (case item_outcome w m f of
        Inl e \<Rightarrow> (Inl e, s)
      | Inr cp \<Rightarrow> batch_for w m fs (preds @ [item_response w s cp]) (tick s))"
  by (simp add: item_outcome_def item_response_def tick_def datetime_utcnow_def
        Let_def split: sum.splits)

lemma batch_for_Inr:
  "batch_for w m fs preds s = (Inr out, s') \<Longrightarrow>
     \<exists>rs. out = preds @ rs \<and> length rs = length fs \<and>
          s' = s\<lparr>clock_reads := clock_reads s + length fs\<rparr> \<and>
          (\<forall>i<length fs.
             \<exists>cp. item_outcome w m (fs ! i) = Inr cp \<and>
               rs ! i = item_response w (s\<lparr>clock_reads := clock_reads s + i\<rparr>) cp)"
proof (induction fs arbitrary: preds s)
  case Nil
  then show ?case by simp
next
  case (Cons f fs)
  from Cons.prems obtain cp where cp: "item_outcome w m f = Inr cp"
    and rest: "batch_for w m fs (preds @ [item_response w s cp]) (tick s) = (Inr out, s')"
    unfolding batch_for_step by (auto split: sum.splits)
  from Cons.IH [OF rest] obtain rs where
    rs: "out = (preds @ [item_response w s cp]) @ rs" "length rs = length fs"
      "s' = (tick s)\<lparr>clock_reads := clock_reads (tick s) + length fs\<rparr>"
      "\<forall>i<length fs. \<exists>cq. item_outcome w m (fs ! i) = Inr cq \<and>
         rs ! i = item_response w ((tick s)\<lparr>clock_reads := clock_reads (tick s) + i\<rparr>) cq"
    by blast
  show ?case
  proof (intro exI [of _ "item_response w s cp # rs"] conjI allI impI)
    fix i assume "i < length (f # fs)"
    then show "\<exists>cq. item_outcome w m ((f # fs) ! i) = Inr cq \<and>
        (item_response w s cp # rs) ! i
          = item_response w (s\<lparr>clock_reads := clock_reads s + i\<rparr>) cq"
      using cp rs(4) by (cases i) (auto simp: tick_def)
  qed (use rs in \<open>auto simp: tick_def\<close>)
qed

lemma batch_for_Inl:
  "item_outcome w m f = Inl e \<Longrightarrow> f \<in> set fs \<Longrightarrow>
     \<exists>e' s'. batch_for w m fs preds s = (Inl e', s')"
proof (induction fs arbitrary: preds s)
  case Nil
  then show ?case by simp
next
  case (Cons g fs)
  show ?case
  proof (cases "item_outcome w m g")
    case (Inl e')
    then show ?thesis unfolding batch_for_step by simp
  next
    case (Inr cp)
    with Cons.prems have "f \<in> set fs" by auto
    from Cons.IH [OF Cons.prems(1) this] show ?thesis
      unfolding batch_for_step using Inr by simp
  qed
qed

lemma predict_batch_outcome:
  "model s = Some m \<Longrightarrow>
   predict_batch w s request =
     (case batch_for w m (features request) [] (tick s) of
        (Inr preds, s2) \<Rightarrow>
           (Inr \<lparr>predictions = preds, total_processed = int (length preds),
                 processing_time_ms =
                   (time_at w (clock_reads s2) - time_at w (clock_reads s)) * 1000\<rparr>, tick s2)
      | (Inl e, s2) \<Rightarrow>
           (Inl (HTTPException 500
                  (''Batch prediction failed: '' @ (case e of Exception msg \<Rightarrow> msg))), s2))"
  by (simp add: predict_batch_def time_time_def tick_def split: prod.splits sum.splits exn.splits)

lemma item_outcome_Inr:
  assumes "model_predict m (preprocess_features w f) = Inr (c # cs)"
    and "model_predict_proba m (preprocess_features w f) = Inr proba"
    and "concat proba \<noteq> []"
  shows "\<exists>conf. item_outcome w m f = Inr (c, conf)"
  using assms by (simp add: item_outcome_def getitem0_def np_max_def split: list.splits)

lemma item_outcome_InrD:
  assumes "item_outcome w m f = Inr (c, conf)"
  shows "\<exists>cs proba. model_predict m (preprocess_features w f) = Inr (c # cs) \<and>
           model_predict_proba m (preprocess_features w f) = Inr proba \<and> concat proba \<noteq> []"
  using assms
  by (auto simp: item_outcome_def getitem0_def np_max_def Let_def
        simp del: concat_eq_Nil_conv split: sum.splits list.splits)

lemma item_outcome_Inl:
  assumes "model_predict m (preprocess_features w f) = Inl e \<or>
           model_predict_proba m (preprocess_features w f) = Inl e"
  shows "\<exists>e'. item_outcome w m f = Inl e'"
  using assms
  by (auto simp: item_outcome_def Let_def split: sum.splits)

section \<open>Readiness gating\<close>

text \<open>
  C3. While no model is loaded, \<open>predict\<close> and \<open>predict_batch\<close> both fail with the 503
  exception, whatever the request and the world are, and hand back the state they were given:
  not even the clock has been read, so the check comes before the start time is taken and
  before any item is encoded or classified. The outcome is an error value of the endpoint,
  not a crash.
\<close>

theorem not_ready_503:
  assumes "model s = None"
  shows "predict w s feats =
           (Inl (HTTPException 503 ''Model not loaded. Please train and load the model first.''), s) \<and>
         predict_batch w s request =
           (Inl (HTTPException 503 ''Model not loaded. Please train and load the model first.''), s) \<and>
         response_status (fst (predict w s feats)) = 503 \<and>
         response_status (fst (predict_batch w s request)) = 503"
  using assms by (simp add: predict_def predict_batch_def response_status_def)

theorem not_ready_503_witness:
  "model initial_state = None \<and>
   predict world_without_file initial_state huge_features =
     (Inl (HTTPException 503 ''Model not loaded. Please train and load the model first.''),
      initial_state) \<and>
   predict_batch (world_with float32_artifact) initial_state
       \<lparr>features = [http_features, huge_features]\<rparr> =
     (Inl (HTTPException 503 ''Model not loaded. Please train and load the model first.''),
      initial_state) \<and>
   response_status (fst (predict world_without_file initial_state huge_features)) = 503"
proof -
  have n: "model initial_state = None" by (simp add: initial_state_def)
  show ?thesis
    using n not_ready_503 [OF n, of world_without_file huge_features]
      not_ready_503 [OF n, of "world_with float32_artifact" _
        "\<lparr>features = [http_features, huge_features]\<rparr>"]
    by (simp add: response_status_def)
qed

section \<open>Lifecycle\<close>







section \<open>Health\<close>

text \<open>
  C8. In every state and world \<open>health_check\<close> returns a response body (status 200), whose
  \<open>status\<close> is \<open>healthy\<close> exactly when a model is loaded and \<open>degraded\<close> exactly when
  none is.
\<close>

theorem health_check_status:
  "\<exists>r. fst (health_check w s) = Inr r \<and>
       status r = (if is_not_None (model s) then ''healthy'' else ''degraded'') \<and>
       (status r = ''healthy'') = (model s \<noteq> None) \<and>
       (status r = ''degraded'') = (model s = None) \<and>
       model_loaded r = (model s \<noteq> None) \<and>
       response_status (fst (health_check w s)) = 200"
  by (cases "model s")
     (auto simp: health_check_def time_time_def Let_def is_not_None_def response_status_def
        split: option.splits prod.splits)


section \<open>Batches\<close>

lemma predict_batch_InrD:
  assumes "model s = Some m" and "fst (predict_batch w s request) = Inr response"
  shows "length (predictions response) = length (features request) \<and>
         total_processed response = int (length (features request)) \<and>
         (\<forall>i<length (features request).
            \<exists>cp. item_outcome w m (features request ! i) = Inr cp \<and>
              predictions response ! i
                = item_response w (s\<lparr>clock_reads := clock_reads s + 1 + i\<rparr>) cp)"
proof -
  obtain r s2 where b: "batch_for w m (features request) [] (tick s) = (r, s2)"
    by (cases "batch_for w m (features request) [] (tick s)")
  with assms obtain preds where r: "r = Inr preds" and p: "predictions response = preds"
    "total_processed response = int (length preds)"
    by (cases r) (auto simp: predict_batch_outcome)
  from batch_for_Inr [OF b [unfolded r]] obtain rs where
    rs: "preds = [] @ rs" "length rs = length (features request)"
      "\<forall>i<length (features request).
         \<exists>cp. item_outcome w m (features request ! i) = Inr cp \<and>
           rs ! i = item_response w ((tick s)\<lparr>clock_reads := clock_reads (tick s) + i\<rparr>) cp"
    by blast
  have "(tick s)\<lparr>clock_reads := clock_reads (tick s) + i\<rparr>
      = s\<lparr>clock_reads := clock_reads s + 1 + i\<rparr>" for i
    by (simp add: tick_def)
  with rs p show ?thesis by simp
qed

lemma item_response_label:
  "(c = 1 \<longrightarrow> prediction (item_response w s (c, conf)) = ''malicious'' \<and>
               threat_type (item_response w s (c, conf)) = Some ''unknown'') \<and>
   (c = 0 \<longrightarrow> prediction (item_response w s (c, conf)) = ''normal'' \<and>
               threat_type (item_response w s (c, conf)) = None)"
  by (simp add: item_response_def)

text \<open>
  C2. With a model loaded: when the artifact answers label \<open>c\<close> for a record within the
  schema's bounds (and its probabilities are not empty), \<open>predict\<close> succeeds, with
  \<open>malicious\<close> and threat type \<open>unknown\<close> for \<open>c = 1\<close>, and with \<open>normal\<close> and no threat
  type for \<open>c = 0\<close>. In a batch that succeeds, every position carries the label mapped the
  same way from the artifact's answer for the record at that position.
\<close>

theorem class_label_mapping:
  assumes "model s = Some m"
  shows "(\<forall>feats c cs proba.
            field_constraints feats \<longrightarrow>
            model_predict m (preprocess_features w feats) = Inr (c # cs) \<longrightarrow>
            model_predict_proba m (preprocess_features w feats) = Inr proba \<longrightarrow>
            concat proba \<noteq> [] \<longrightarrow>
            (\<exists>r. fst (predict w s feats) = Inr r \<and>
                 (c = 1 \<longrightarrow> prediction r = ''malicious'' \<and> threat_type r = Some ''unknown'') \<and>
                 (c = 0 \<longrightarrow> prediction r = ''normal'' \<and> threat_type r = None))) \<and>
         (\<forall>request response.
            (\<forall>f\<in>set (features request). field_constraints f) \<longrightarrow>
            fst (predict_batch w s request) = Inr response \<longrightarrow>
            length (predictions response) = length (features request) \<and>
            (\<forall>i<length (features request). \<exists>c cs.
               model_predict m (preprocess_features w (features request ! i)) = Inr (c # cs) \<and>
               (c = 1 \<longrightarrow> prediction (predictions response ! i) = ''malicious'' \<and>
                         threat_type (predictions response ! i) = Some ''unknown'') \<and>
               (c = 0 \<longrightarrow> prediction (predictions response ! i) = ''normal'' \<and>
                         threat_type (predictions response ! i) = None)))"
proof (intro conjI allI impI)
  fix feats c cs proba
  assume "model_predict m (preprocess_features w feats) = Inr (c # cs)"
    and "model_predict_proba m (preprocess_features w feats) = Inr proba"
    and "concat proba \<noteq> []"
  then obtain conf where "item_outcome w m feats = Inr (c, conf)"
    using item_outcome_Inr by blast
  then have "fst (predict w s feats) = Inr (item_response w s (c, conf))"
    using assms by (simp add: predict_outcome)
  then show "\<exists>r. fst (predict w s feats) = Inr r \<and>
      (c = 1 \<longrightarrow> prediction r = ''malicious'' \<and> threat_type r = Some ''unknown'') \<and>
      (c = 0 \<longrightarrow> prediction r = ''normal'' \<and> threat_type r = None)"
    using item_response_label [of c w s conf] by blast
next
  fix request response
  assume "fst (predict_batch w s request) = Inr response"
  from predict_batch_InrD [OF assms this]
  show "length (predictions response) = length (features request)" by blast
next
  fix request response i
  assume ok: "fst (predict_batch w s request) = Inr response"
    and i: "i < length (features request)"
  from predict_batch_InrD [OF assms ok] i obtain cp where
    cp: "item_outcome w m (features request ! i) = Inr cp"
      "predictions response ! i
         = item_response w (s\<lparr>clock_reads := clock_reads s + 1 + i\<rparr>) cp"
    by blast
  obtain c conf where c: "cp = (c, conf)" by (cases cp)
  from item_outcome_InrD [OF cp(1) [unfolded c]] obtain cs where
    "model_predict m (preprocess_features w (features request ! i)) = Inr (c # cs)" by blast
  then show "\<exists>c cs.
      model_predict m (preprocess_features w (features request ! i)) = Inr (c # cs) \<and>
      (c = 1 \<longrightarrow> prediction (predictions response ! i) = ''malicious'' \<and>
                threat_type (predictions response ! i) = Some ''unknown'') \<and>
      (c = 0 \<longrightarrow> prediction (predictions response ! i) = ''normal'' \<and>
                threat_type (predictions response ! i) = None)"
    using item_response_label [of c w "s\<lparr>clock_reads := clock_reads s + 1 + i\<rparr>" conf]
    unfolding cp(2) c by blast
qed

theorem class_label_mapping_witness:
  "(\<exists>r. fst (predict (world_with (constant_artifact 0 1)) (loaded_state (constant_artifact 0 1))
             http_features) = Inr r \<and>
        prediction r = ''normal'' \<and> threat_type r = None) \<and>
   (\<exists>r. fst (predict (world_with float32_artifact) (loaded_state float32_artifact)
             upload_features) = Inr r \<and>
        prediction r = ''malicious'' \<and> threat_type r = Some ''unknown'') \<and>
   (\<exists>response.
      fst (predict_batch (world_with (constant_artifact 1 (9 / 10)))
             (loaded_state (constant_artifact 1 (9 / 10)))
             \<lparr>features = [http_features, http_features, http_features]\<rparr>) = Inr response \<and>
      length (predictions response) = 3 \<and>
      prediction (predictions response ! 0) = ''malicious'' \<and>
      threat_type (predictions response ! 0) = Some ''unknown'' \<and>
      prediction (predictions response ! 1) = ''malicious'' \<and>
      threat_type (predictions response ! 1) = Some ''unknown'' \<and>
      prediction (predictions response ! 2) = ''malicious'' \<and>
      threat_type (predictions response ! 2) = Some ''unknown'')"
proof -
  let ?A0 = "constant_artifact 0 1"
  let ?A1 = "constant_artifact 1 (9 / 10)"
  let ?R = "\<lparr>features = [http_features, http_features, http_features]\<rparr>"
  have zero: "\<exists>r. fst (predict (world_with ?A0) (loaded_state ?A0) http_features) = Inr r \<and>
      (0 = (1::int) \<longrightarrow> prediction r = ''malicious'' \<and> threat_type r = Some ''unknown'') \<and>
      (0 = (0::int) \<longrightarrow> prediction r = ''normal'' \<and> threat_type r = None)"
  proof -
    have "field_constraints http_features"
      and "model_predict ?A0 (preprocess_features (world_with ?A0) http_features) = Inr (0 # [])"
      and "model_predict_proba ?A0 (preprocess_features (world_with ?A0) http_features)
             = Inr [[1 - 1, 1]]"
      and "concat [[1 - 1, 1::real]] \<noteq> []"
      by (simp_all add: field_constraints_http_features constant_artifact_def
            preprocess_features_def reshape_1_def)
    with class_label_mapping [OF model_loaded_state, of ?A0 "world_with ?A0"]
    show ?thesis by blast
  qed
  have one: "\<exists>r. fst (predict (world_with float32_artifact) (loaded_state float32_artifact)
        upload_features) = Inr r \<and>
      (1 = (1::int) \<longrightarrow> prediction r = ''malicious'' \<and> threat_type r = Some ''unknown'') \<and>
      (1 = (0::int) \<longrightarrow> prediction r = ''normal'' \<and> threat_type r = None)"
  proof -
    have "field_constraints upload_features"
      and "model_predict float32_artifact
             (preprocess_features (world_with float32_artifact) upload_features) = Inr (1 # [])"
      and "model_predict_proba float32_artifact
             (preprocess_features (world_with float32_artifact) upload_features)
             = Inr [[1 / 4, 3 / 4]]"
      and "concat [[1 / 4, 3 / 4::real]] \<noteq> []"
      by (simp_all add: field_constraints_upload_features float32_predict_upload,
          simp add: float32_artifact_def preprocess_upload_features)
    with class_label_mapping [OF model_loaded_state, of float32_artifact
        "world_with float32_artifact"]
    show ?thesis by blast
  qed
  have "\<exists>response. fst (predict_batch (world_with ?A1) (loaded_state ?A1) ?R) = Inr response"
    by (simp add: predict_batch_outcome [OF model_loaded_state] batch_for_step
          item_outcome_constant_artifact del: batch_for.simps(2))
  then obtain response where
    ok: "fst (predict_batch (world_with ?A1) (loaded_state ?A1) ?R) = Inr response" ..
  have valid: "\<forall>f\<in>set (features ?R). field_constraints f"
    by (simp add: field_constraints_http_features)
  from class_label_mapping [OF model_loaded_state, of ?A1 "world_with ?A1"] valid ok
  have len: "length (predictions response) = length (features ?R)"
    and each: "\<forall>i<length (features ?R). \<exists>c cs.
        model_predict ?A1 (preprocess_features (world_with ?A1) (features ?R ! i))
          = Inr (c # cs) \<and>
        (c = 1 \<longrightarrow> prediction (predictions response ! i) = ''malicious'' \<and>
                  threat_type (predictions response ! i) = Some ''unknown'') \<and>
        (c = 0 \<longrightarrow> prediction (predictions response ! i) = ''normal'' \<and>
                  threat_type (predictions response ! i) = None)"
    by blast+
  have label: "model_predict ?A1 X = Inr (c # cs) \<Longrightarrow> X = [row] \<Longrightarrow> c = 1" for X c cs row
    by (simp add: constant_artifact_def)
  have row: "preprocess_features (world_with ?A1) (features ?R ! i)
      = [numeric_features (world_with ?A1) (features ?R ! i)]" for i
    by (simp add: preprocess_features_def reshape_1_def)
  have "prediction (predictions response ! i) = ''malicious'' \<and>
        threat_type (predictions response ! i) = Some ''unknown''" if "i < 3" for i
  proof -
    from that have "i < length (features ?R)" by simp
    with each obtain c cs where
      c: "model_predict ?A1 (preprocess_features (world_with ?A1) (features ?R ! i))
          = Inr (c # cs)"
        "c = 1 \<longrightarrow> prediction (predictions response ! i) = ''malicious'' \<and>
                  threat_type (predictions response ! i) = Some ''unknown''"
      by blast
    from label [OF c(1) row] c(2) show ?thesis by blast
  qed
  from this [of 0] this [of 1] this [of 2] len ok zero one show ?thesis by simp
qed

text \<open>
  C4. With a model loaded: when \<open>model.predict\<close> or \<open>model.predict_proba\<close> raises on some
  record of the batch, \<open>predict_batch\<close> fails with the 500 exception. Its outcome is the
  exception alone: no response, hence no prediction for the items before the failing one.
\<close>

theorem batch_all_or_nothing:
  assumes "model s = Some m" and "f \<in> set (features request)"
    and "model_predict m (preprocess_features w f) = Inl e \<or>
         model_predict_proba m (preprocess_features w f) = Inl e"
  shows "(\<exists>msg. fst (predict_batch w s request)
                  = Inl (HTTPException 500 (''Batch prediction failed: '' @ msg))) \<and>
         (\<forall>response. fst (predict_batch w s request) \<noteq> Inr response) \<and>
         response_status (fst (predict_batch w s request)) = 500"
proof -
  from item_outcome_Inl [OF assms(3)] obtain e' where "item_outcome w m f = Inl e'" ..
  from batch_for_Inl [OF this assms(2)] obtain e'' s2 where
    "batch_for w m (features request) [] (tick s) = (Inl e'', s2)" by blast
  then show ?thesis
    using assms(1) by (simp add: predict_batch_outcome response_status_def)
qed

theorem batch_all_or_nothing_witness:
  "field_constraints huge_features \<and>
   (\<exists>r. fst (predict (world_with float32_artifact) (loaded_state float32_artifact)
             http_features) = Inr r) \<and>
   (\<exists>msg. fst (predict_batch (world_with float32_artifact) (loaded_state float32_artifact)
               \<lparr>features = [http_features, huge_features, http_features]\<rparr>)
            = Inl (HTTPException 500 (''Batch prediction failed: '' @ msg))) \<and>
   response_status
     (fst (predict_batch (world_with float32_artifact) (loaded_state float32_artifact)
            \<lparr>features = [http_features, huge_features, http_features]\<rparr>)) = 500"
proof -
  let ?R = "\<lparr>features = [http_features, huge_features, http_features]\<rparr>"
  have mem: "huge_features \<in> set (features ?R)" by simp
  have raises: "model_predict float32_artifact
          (preprocess_features (world_with float32_artifact) huge_features)
        = Inl (Exception ''Input X contains infinity or a value too large for float32.'') \<or>
      model_predict_proba float32_artifact
          (preprocess_features (world_with float32_artifact) huge_features)
        = Inl (Exception ''Input X contains infinity or a value too large for float32.'')"
    using float32_predict_huge [of float32_artifact] by (rule disjI1)
  have first: "\<exists>r. fst (predict (world_with float32_artifact) (loaded_state float32_artifact)
      http_features) = Inr r"
    by (simp add: predict_outcome [OF model_loaded_state] float32_outcome_http)
  note aborts = batch_all_or_nothing [OF model_loaded_state mem raises]
  show ?thesis
    by (intro conjI field_constraints_huge_features first aborts [THEN conjunct1]
          aborts [THEN conjunct2, THEN conjunct2])
qed

text \<open>
  C5. With a model loaded: an empty batch succeeds with an empty list and
  \<open>total_processed = 0\<close>; and every batch that succeeds returns as many predictions as it
  received records, counts them in \<open>total_processed\<close>, and has at position \<open>i\<close> exactly the
  response that \<open>predict\<close> gives for the \<open>i\<close>-th record (at the clock reading the loop makes
  for it).
\<close>

theorem batch_preserves_order:
  assumes "model s = Some m"
  shows "(features request = [] \<longrightarrow>
            (\<exists>response. fst (predict_batch w s request) = Inr response \<and>
               predictions response = [] \<and> total_processed response = 0)) \<and>
         (\<forall>response. fst (predict_batch w s request) = Inr response \<longrightarrow>
            length (predictions response) = length (features request) \<and>
            total_processed response = int (length (features request)) \<and>
            (\<forall>i<length (features request).
               fst (predict w (s\<lparr>clock_reads := clock_reads s + 1 + i\<rparr>) (features request ! i))
                 = Inr (predictions response ! i)))"
proof (intro conjI allI impI)
  assume "features request = []"
  then show "\<exists>response. fst (predict_batch w s request) = Inr response \<and>
      predictions response = [] \<and> total_processed response = 0"
    using assms by (simp add: predict_batch_outcome)
next
  fix response
  assume ok: "fst (predict_batch w s request) = Inr response"
  from predict_batch_InrD [OF assms ok]
  show "length (predictions response) = length (features request)"
    and "total_processed response = int (length (features request))" by blast+
next
  fix response i
  assume ok: "fst (predict_batch w s request) = Inr response"
    and i: "i < length (features request)"
  from predict_batch_InrD [OF assms ok] i obtain cp where
    cp: "item_outcome w m (features request ! i) = Inr cp"
      "predictions response ! i
         = item_response w (s\<lparr>clock_reads := clock_reads s + 1 + i\<rparr>) cp"
    by blast
  have "model (s\<lparr>clock_reads := clock_reads s + 1 + i\<rparr>) = Some m"
    using assms by simp
  from predict_outcome [OF this] cp
  show "fst (predict w (s\<lparr>clock_reads := clock_reads s + 1 + i\<rparr>) (features request ! i))
      = Inr (predictions response ! i)"
    by simp
qed

theorem batch_preserves_order_witness:
  "(\<exists>response.
      fst (predict_batch (world_with float32_artifact) (loaded_state float32_artifact)
             \<lparr>features = []\<rparr>) = Inr response \<and>
      predictions response = [] \<and> total_processed response = 0) \<and>
   (\<exists>response.
      fst (predict_batch (world_with float32_artifact) (loaded_state float32_artifact)
             \<lparr>features = [http_features, upload_features, http_features]\<rparr>) = Inr response \<and>
      length (predictions response) = 3 \<and> total_processed response = 3 \<and>
      map prediction (predictions response) = [''normal'', ''malicious'', ''normal''] \<and>
      fst (predict (world_with float32_artifact)
             ((loaded_state float32_artifact)\<lparr>clock_reads := 3\<rparr>) upload_features)
        = Inr (predictions response ! 1))"
proof -
  let ?W = "world_with float32_artifact"
  let ?L = "loaded_state float32_artifact"
  let ?R = "\<lparr>features = [http_features, upload_features, http_features]\<rparr>"
  note thm0 = batch_preserves_order [OF model_loaded_state, of "\<lparr>features = []\<rparr>" ?W]
  note thm3 = batch_preserves_order [OF model_loaded_state, of ?R ?W]
  from thm0 have empty: "\<exists>response. fst (predict_batch ?W ?L \<lparr>features = []\<rparr>) = Inr response \<and>
      predictions response = [] \<and> total_processed response = 0"
    by simp
  have "\<exists>response. fst (predict_batch ?W ?L ?R) = Inr response \<and>
      map prediction (predictions response) = [''normal'', ''malicious'', ''normal'']"
    by (simp add: predict_batch_outcome [OF model_loaded_state] batch_for_step
          float32_outcome_http float32_outcome_upload item_response_def
          del: batch_for.simps(2))
  then obtain response where both: "fst (predict_batch ?W ?L ?R) = Inr response \<and>
      map prediction (predictions response) = [''normal'', ''malicious'', ''normal'']" ..
  then have ok: "fst (predict_batch ?W ?L ?R) = Inr response"
    and labels: "map prediction (predictions response) = [''normal'', ''malicious'', ''normal'']"
    by (rule conjunct1, rule conjunct2)
  from thm3 [THEN conjunct2, THEN spec, THEN mp, OF ok]
  have len: "length (predictions response) = length (features ?R)"
    and total: "total_processed response = int (length (features ?R))"
    and each: "\<forall>i<length (features ?R).
        fst (predict ?W (?L\<lparr>clock_reads := clock_reads ?L + 1 + i\<rparr>) (features ?R ! i))
          = Inr (predictions response ! i)"
    by (rule conjunct1, rule conjunct2 [THEN conjunct1], rule conjunct2 [THEN conjunct2])
  have one: "(1::nat) < length (features ?R)" by simp
  from each [THEN spec, THEN mp, OF one]
  have second: "fst (predict ?W (?L\<lparr>clock_reads := 3\<rparr>) upload_features)
      = Inr (predictions response ! 1)"
    by (simp add: loaded_state_def numeral_3_eq_3)
  from len total have len3: "length (predictions response) = 3"
    and total3: "total_processed response = 3"
    by simp_all
  have "fst (predict_batch ?W ?L ?R) = Inr response \<and>
      length (predictions response) = 3 \<and> total_processed response = 3 \<and>
      map prediction (predictions response) = [''normal'', ''malicious'', ''normal''] \<and>
      fst (predict ?W (?L\<lparr>clock_reads := 3\<rparr>) upload_features) = Inr (predictions response ! 1)"
    by (intro conjI ok len3 total3 labels second)
  then have "\<exists>response. fst (predict_batch ?W ?L ?R) = Inr response \<and>
      length (predictions response) = 3 \<and> total_processed response = 3 \<and>
      map prediction (predictions response) = [''normal'', ''malicious'', ''normal''] \<and>
      fst (predict ?W (?L\<lparr>clock_reads := 3\<rparr>) upload_features) = Inr (predictions response ! 1)"
    by (rule exI)
  with empty show ?thesis by (rule conjI)
qed

section \<open>Determinism and noninterference\<close>

text \<open>
  C9. For every record within the schema's bounds the encoding is a function of the record
  alone (equal records give equal arrays) and always yields a one-row array of 38 numbers.
  It adds no failure path: when the body of \<open>predict\<close> raises, the exception is the one
  raised by the artifact, or comes from an empty answer of the artifact.
\<close>

theorem preprocess_features_deterministic_total:
  assumes "field_constraints f"
  shows "(\<forall>f'. f' = f \<longrightarrow> preprocess_features w f' = preprocess_features w f) \<and>
         (\<exists>row. preprocess_features w f = [row] \<and> length row = 38) \<and>
         (\<forall>s m e. predict_try w s m f = (Inl e, s) \<longrightarrow>
            model_predict m (preprocess_features w f) = Inl e \<or>
            model_predict m (preprocess_features w f) = Inr [] \<or>
            model_predict_proba m (preprocess_features w f) = Inl e \<or>
            (\<exists>proba. model_predict_proba m (preprocess_features w f) = Inr proba \<and>
                     concat proba = []))"
proof (intro conjI allI impI)
  show "\<exists>row. preprocess_features w f = [row] \<and> length row = 38"
    by (simp add: preprocess_features_def reshape_1_def length_numeric_features)
next
  fix s m e
  assume "predict_try w s m f = (Inl e, s)"
  then have "item_outcome w m f = Inl e"
    by (simp add: predict_try_outcome split: sum.splits)
  then show "model_predict m (preprocess_features w f) = Inl e \<or>
      model_predict m (preprocess_features w f) = Inr [] \<or>
      model_predict_proba m (preprocess_features w f) = Inl e \<or>
      (\<exists>proba. model_predict_proba m (preprocess_features w f) = Inr proba \<and> concat proba = [])"
    by (auto simp: item_outcome_def getitem0_def np_max_def Let_def
          simp del: concat_eq_Nil_conv split: sum.splits list.splits)
qed simp

theorem preprocess_features_deterministic_total_witness:
  "field_constraints http_features \<and>
   preprocess_features (world_with float32_artifact) http_features =
     [[2, 181, 5450, 0, 0, 0, 0, 0, 1, 0, 0, 0, 0, 0, 0, 0, 0, 0, 0, 8, 8, 0, 0, 0, 0, 1, 0, 0,
       9, 9, 1, 0, 1 / 9, 0, 0, 0, 0, 0]] \<and>
   (\<exists>row. preprocess_features (world_with float32_artifact) http_features = [row] \<and>
      length row = 38) \<and>
   (\<exists>r. predict_try (world_with float32_artifact) (loaded_state float32_artifact)
           float32_artifact http_features
         = (Inr r, tick (loaded_state float32_artifact)))"
proof -
  note total = preprocess_features_deterministic_total [OF field_constraints_http_features,
      of "world_with float32_artifact"]
  have runs: "\<exists>r. predict_try (world_with float32_artifact) (loaded_state float32_artifact)
      float32_artifact http_features = (Inr r, tick (loaded_state float32_artifact))"
    by (simp add: predict_try_outcome float32_outcome_http)
  show ?thesis
    by (intro conjI field_constraints_http_features preprocess_http_features runs
          total [THEN conjunct2, THEN conjunct1])
qed

text \<open>
  C10. Two records within the schema's bounds that differ at most in \<open>protocol_type\<close>,
  \<open>service\<close> and \<open>flag\<close> have the same encoding, and \<open>predict\<close> returns the same outcome
  for both in the same state and world: the same label, confidence and threat type, or the
  same error.
\<close>

theorem categorical_noninterference:
  assumes "field_constraints f" and "field_constraints f'"
    and "f' = f\<lparr>protocol_type := protocol_type f', service := service f', flag := flag f'\<rparr>"
  shows "preprocess_features w f' = preprocess_features w f \<and> predict w s f' = predict w s f"
proof -
  have "numeric_features w f' = numeric_features w f"
    by (subst assms(3)) (rule numeric_features_categorical)
  then have eq: "preprocess_features w f' = preprocess_features w f"
    by (simp add: preprocess_features_def)
  then have "predict_try w s m f' = predict_try w s m f" for m
    by (simp add: predict_try_def)
  with eq show ?thesis by (simp add: predict_def split: option.splits)
qed

theorem categorical_noninterference_witness:
  "field_constraints http_features \<and>
   field_constraints (http_features\<lparr>protocol_type := ''udp'', service := ''domain_u'',
                                    flag := ''S0''\<rparr>) \<and>
   preprocess_features (world_with float32_artifact)
       (http_features\<lparr>protocol_type := ''udp'', service := ''domain_u'', flag := ''S0''\<rparr>)
     = preprocess_features (world_with float32_artifact) http_features \<and>
   predict (world_with float32_artifact) (loaded_state float32_artifact)
       (http_features\<lparr>protocol_type := ''udp'', service := ''domain_u'', flag := ''S0''\<rparr>)
     = predict (world_with float32_artifact) (loaded_state float32_artifact) http_features \<and>
   (\<exists>r. fst (predict (world_with float32_artifact) (loaded_state float32_artifact)
             http_features) = Inr r \<and> prediction r = ''normal'')"
proof -
  let ?f' = "http_features\<lparr>protocol_type := ''udp'', service := ''domain_u'', flag := ''S0''\<rparr>"
  have v: "field_constraints ?f'"
    by (simp add: field_constraints_def http_features_def)
  have upd: "?f' = http_features\<lparr>protocol_type := protocol_type ?f', service := service ?f',
      flag := flag ?f'\<rparr>"
    by simp
  have r: "\<exists>r. fst (predict (world_with float32_artifact) (loaded_state float32_artifact)
      http_features) = Inr r \<and> prediction r = ''normal''"
    by (simp add: predict_outcome [OF model_loaded_state] float32_outcome_http
          item_response_def)
  note same = categorical_noninterference [OF field_constraints_http_features v upd,
      of "world_with float32_artifact" "loaded_state float32_artifact"]
  show ?thesis
    by (intro conjI field_constraints_http_features v r same [THEN conjunct1]
          same [THEN conjunct2])
qed

end
